theory Spec2Isabelle
  imports Complex_Main "HOL-Library.Char_ord" "HOL-Library.List_Lexorder" "HOL-Library.Multiset"
begin

section \<open>JavaScript values of a request body\<close>

text \<open>
  \<^verbatim>\<open>express.json()\<close> hands every handler a parsed JSON body, and the handlers read
  its fields by destructuring (\<^verbatim>\<open>const { rating, comment } = req.body\<close>), so a field
  that the body does not carry is \<^verbatim>\<open>undefined\<close>. A field is therefore one of the
  JSON values or \<open>Undefined\<close>. A number is a binary64 value: a rational, or one of the
  two infinities (\<^verbatim>\<open>JSON.parse("1e999")\<close>); \<^verbatim>\<open>NaN\<close> is not a JSON value and appears
  only as the result \<open>None\<close> of a conversion. A string is the list of its UTF-8 bytes,
  an object the list of its own properties.
\<close>

datatype number = NegInf | Fin rat | PosInf

datatype jsval =
    Undefined
  | Null
  | Bool bool
  | Num number
  | Str string
  | Arr "jsval list"
  | Obj "(string \<times> jsval) list"

fun num_less :: "number \<Rightarrow> number \<Rightarrow> bool" where
  "num_less NegInf NegInf = False"
| "num_less NegInf (Fin b) = True"
| "num_less NegInf PosInf = True"
| "num_less (Fin a) NegInf = False"
| "num_less (Fin a) (Fin b) = (a < b)"
| "num_less (Fin a) PosInf = True"
| "num_less PosInf b = False"

text \<open>
  What a handler raises and no \<^verbatim>\<open>catch\<close> of it has caught (\<^verbatim>\<open>TypeError\<close>, from a
  conversion), and what the store raises.
\<close>

datatype failure = TypeError | CastError | ValidationError | DuplicateKey | Unreachable

subsection \<open>Rounding to binary64\<close>

text \<open>
  Round to nearest, ties to even, with 53 bits above the exponent -1022 and the fixed
  step \<open>2\<^sup>-\<^sup>1\<^sup>0\<^sup>7\<^sup>4\<close> below it; what rounds to \<open>2\<^sup>1\<^sup>0\<^sup>2\<^sup>4\<close> or more is infinite.
\<close>

function bits :: "int \<Rightarrow> nat" where
  "bits n = (if n \<le> 0 then 0 else Suc (bits (n div 2)))"
  by pat_completeness auto
termination
  by (relation "measure nat") auto

definition pow2 :: "int \<Rightarrow> rat" where
  "pow2 k = (if 0 \<le> k then 2 ^ nat k else 1 / 2 ^ nat (- k))"

definition pow10 :: "int \<Rightarrow> rat" where
  "pow10 k = (if 0 \<le> k then 10 ^ nat k else 1 / 10 ^ nat (- k))"

definition floor_log2 :: "rat \<Rightarrow> int" where
  "floor_log2 r =
     (case quotient_of r of
        (p, q) \<Rightarrow>
          (let d = int (bits p) - int (bits q)
           in if pow2 d \<le> r then d else d - 1))"

definition round_half_even :: "rat \<Rightarrow> int" where
  "round_half_even x =
     (let f = \<lfloor>x\<rfloor>; d = x - of_int f
      in if d < 1 / 2 then f
         else if 1 / 2 < d then f + 1
         else if even f then f else f + 1)"

definition round_to_double :: "rat \<Rightarrow> number" where
  "round_to_double r =
     (if r = 0 then Fin 0
      else
        (let a = \<bar>r\<bar>;
             q = max (floor_log2 a) (- 1022) - 52;
             v = of_int (round_half_even (a / pow2 q)) * pow2 q
         in if pow2 1024 \<le> v then (if r < 0 then NegInf else PosInf)
            else Fin (if r < 0 then - v else v)))"

subsection \<open>\<^verbatim>\<open>Number(string)\<close>: the StringToNumber conversion\<close>

text \<open>
  The white space and line terminators that are stripped from both ends, as UTF-8:
  TAB, LF, VT, FF, CR, SP, U+00A0, U+1680, U+2000 to U+200A, U+2028, U+2029, U+202F,
  U+205F, U+3000 and U+FEFF.
\<close>

definition white_space :: "nat list list" where
  "white_space =
     [[9], [10], [11], [12], [13], [32], [194, 160], [225, 154, 128],
      [226, 128, 128], [226, 128, 129], [226, 128, 130], [226, 128, 131],
      [226, 128, 132], [226, 128, 133], [226, 128, 134], [226, 128, 135],
      [226, 128, 136], [226, 128, 137], [226, 128, 138],
      [226, 128, 168], [226, 128, 169], [226, 128, 175], [226, 129, 159],
      [227, 128, 128], [239, 187, 191]]"

definition starts_with :: "nat list \<Rightarrow> string \<Rightarrow> bool" where
  "starts_with w s = (take (length w) (map of_char s) = w)"

fun strip_leading :: "nat \<Rightarrow> nat list list \<Rightarrow> string \<Rightarrow> string" where
  "strip_leading 0 ws s = s"
| "strip_leading (Suc n) ws s =
     (case find (\<lambda>w. starts_with w s) ws of
        None \<Rightarrow> s
      | Some w \<Rightarrow> strip_leading n ws (drop (length w) s))"

definition trim :: "string \<Rightarrow> string" where
  "trim s =
     (let t = strip_leading (length s) white_space s
      in rev (strip_leading (length t) (map rev white_space) (rev t)))"

definition digit_of :: "nat \<Rightarrow> char \<Rightarrow> nat option" where
  "digit_of base c =
     (let n = (of_char c :: nat);
          d = (if 48 \<le> n \<and> n \<le> 57 then n - 48
               else if 97 \<le> n \<and> n \<le> 102 then n - 87
               else if 65 \<le> n \<and> n \<le> 70 then n - 55
               else base)
      in if d < base then Some d else None)"

definition is_dec :: "char \<Rightarrow> bool" where
  "is_dec c = (digit_of 10 c \<noteq> None)"

fun read_digits :: "nat \<Rightarrow> int \<Rightarrow> string \<Rightarrow> int option" where
  "read_digits base acc [] = Some acc"
| "read_digits base acc (c # cs) =
     (case digit_of base c of
        None \<Rightarrow> None
      | Some d \<Rightarrow> read_digits base (acc * int base + int d) cs)"

definition read_nat :: "nat \<Rightarrow> string \<Rightarrow> int option" where
  "read_nat base s = (if s = [] then None else read_digits base 0 s)"

definition split_sign :: "string \<Rightarrow> bool \<times> string" where
  "split_sign s =
     (case s of
        [] \<Rightarrow> (False, [])
      | c # cs \<Rightarrow>
          if c = CHR ''-'' then (True, cs)
          else if c = CHR ''+'' then (False, cs)
          else (False, s))"

definition exponent_part :: "string \<Rightarrow> int option" where
  "exponent_part s =
     (case s of
        [] \<Rightarrow> Some 0
      | c # cs \<Rightarrow>
          if c = CHR ''e'' \<or> c = CHR ''E'' then
            (case split_sign cs of
               (neg, ds) \<Rightarrow>
                 (case read_nat 10 ds of
                    None \<Rightarrow> None
                  | Some n \<Rightarrow> Some (if neg then - n else n)))
          else None)"

text \<open>The mathematical value of a decimal literal, before it is rounded.\<close>

definition decimal_literal :: "string \<Rightarrow> rat option" where
  "decimal_literal s =
     (let ip = takeWhile is_dec s;
          r1 = dropWhile is_dec s;
          dot = (r1 \<noteq> [] \<and> hd r1 = CHR ''.'');
          fp = (if dot then takeWhile is_dec (tl r1) else []);
          r2 = (if dot then dropWhile is_dec (tl r1) else r1)
      in if ip = [] \<and> fp = [] then None
         else
           (case (read_digits 10 0 ip, read_digits 10 0 fp, exponent_part r2) of
              (Some i, Some f, Some e) \<Rightarrow>
                Some ((of_int i + of_int f / 10 ^ length fp) * pow10 e)
            | _ \<Rightarrow> None))"

definition radix_literal :: "string \<Rightarrow> rat option option" where
  "radix_literal s =
     (case s of
        z # x # ds \<Rightarrow>
          if z \<noteq> CHR ''0'' then None
          else if x = CHR ''x'' \<or> x = CHR ''X'' then Some (map_option of_int (read_nat 16 ds))
          else if x = CHR ''o'' \<or> x = CHR ''O'' then Some (map_option of_int (read_nat 8 ds))
          else if x = CHR ''b'' \<or> x = CHR ''B'' then Some (map_option of_int (read_nat 2 ds))
          else None
      | _ \<Rightarrow> None)"

definition string_to_number :: "string \<Rightarrow> number option" where
  "string_to_number s =
     (let t = trim s in
      if t = [] then Some (Fin 0)
      else
        (case radix_literal t of
           Some r \<Rightarrow> map_option round_to_double r
         | None \<Rightarrow>
             (case split_sign t of
                (neg, u) \<Rightarrow>
                  if u = ''Infinity'' then Some (if neg then NegInf else PosInf)
                  else map_option (\<lambda>r. round_to_double (if neg then - r else r))
                         (decimal_literal u))))"

subsection \<open>\<^verbatim>\<open>String(number)\<close>: Number::toString in radix 10\<close>

function int_digits :: "int \<Rightarrow> string" where
  "int_digits n =
     (if n < 10 then [char_of (48 + n)]
      else int_digits (n div 10) @ [char_of (48 + n mod 10)])"
  by pat_completeness auto
termination
  by (relation "measure nat") auto

text \<open>
  The exponent \<open>n\<close> with \<open>10\<^sup>n\<^sup>-\<^sup>1 \<le> r < 10\<^sup>n\<close>, looked for in the range of the
  binary64 values.
\<close>

fun scan_up :: "nat \<Rightarrow> rat \<Rightarrow> int \<Rightarrow> int" where
  "scan_up 0 r n = n"
| "scan_up (Suc fuel) r n = (if r < pow10 n then n else scan_up fuel r (n + 1))"

definition dec_exponent :: "rat \<Rightarrow> int" where
  "dec_exponent r = scan_up 640 r (- 330)"

text \<open>
  The digits ECMAScript prints: the integer \<open>s\<close> of \<open>k\<close> digits, \<open>k\<close> as small as
  possible, with \<open>s \<times> 10\<^sup>n\<^sup>-\<^sup>k\<close> rounding to the number, and of two such the one nearer
  to it. \<open>k\<close> starts at 1; 17 digits always suffice for a binary64 value.
\<close>

definition pick_digits :: "bool \<Rightarrow> nat \<Rightarrow> rat \<Rightarrow> int \<Rightarrow> (int \<times> int) option" where
  "pick_digits final k r n =
     (let scale = pow10 (n - int k);
          lo = \<lfloor>r / scale\<rfloor>;
          hi = lo + 1;
          ok_lo = (final \<or> round_to_double (of_int lo * scale) = Fin r);
          ok_hi = (final \<or> round_to_double (of_int hi * scale) = Fin r);
          d_lo = r - of_int lo * scale;
          d_hi = of_int hi * scale - r;
          s = (if ok_lo \<and> ok_hi
               then (if d_hi < d_lo \<or> (d_hi = d_lo \<and> odd lo) then hi else lo)
               else if ok_hi then hi else lo)
      in if ok_lo \<or> ok_hi
         then Some (if s = 10 ^ k then (10 ^ (k - 1), n + 1) else (s, n))
         else None)"

fun shortest_digits :: "nat \<Rightarrow> nat \<Rightarrow> rat \<Rightarrow> int \<Rightarrow> int \<times> int" where
  "shortest_digits 0 k r n = (case pick_digits True k r n of Some sn \<Rightarrow> sn | None \<Rightarrow> (0, n))"
| "shortest_digits (Suc fuel) k r n =
     (case pick_digits False k r n of
        Some sn \<Rightarrow> sn
      | None \<Rightarrow> shortest_digits fuel (Suc k) r n)"

definition positive_to_string :: "rat \<Rightarrow> string" where
  "positive_to_string r =
     (case shortest_digits 16 1 r (dec_exponent r) of
        (s, n) \<Rightarrow>
          (let ds = int_digits s;
               k = int (length ds)
           in if k \<le> n \<and> n \<le> 21 then ds @ replicate (nat (n - k)) CHR ''0''
              else if 0 < n \<and> n \<le> 21 then take (nat n) ds @ ''.'' @ drop (nat n) ds
              else if - 6 < n \<and> n \<le> 0 then ''0.'' @ replicate (nat (- n)) CHR ''0'' @ ds
              else
                (let ex = (if 0 \<le> n - 1 then ''+'' else ''-'') @ int_digits \<bar>n - 1\<bar>
                 in if k = 1 then ds @ ''e'' @ ex
                    else take 1 ds @ ''.'' @ drop 1 ds @ ''e'' @ ex)))"

fun number_to_string :: "number \<Rightarrow> string" where
  "number_to_string NegInf = ''-Infinity''"
| "number_to_string PosInf = ''Infinity''"
| "number_to_string (Fin r) =
     (if r = 0 then ''0''
      else if r < 0 then ''-'' @ positive_to_string (- r)
      else positive_to_string r)"

subsection \<open>The conversions the handlers apply\<close>

definition join_comma :: "string list \<Rightarrow> string" where
  "join_comma ss = (case ss of [] \<Rightarrow> [] | s # rest \<Rightarrow> s @ concat (map (\<lambda>t. '','' @ t) rest))"

fun collect :: "(failure + 'a) list \<Rightarrow> failure + 'a list" where
  "collect [] = Inr []"
| "collect (x # xs) =
     (case x of
        Inl err \<Rightarrow> Inl err
      | Inr y \<Rightarrow> (case collect xs of Inl err \<Rightarrow> Inl err | Inr ys \<Rightarrow> Inr (y # ys)))"

text \<open>
  \<^verbatim>\<open>String(v)\<close>. An array joins its elements, \<^verbatim>\<open>null\<close> and \<^verbatim>\<open>undefined\<close> as the empty
  string. An object parsed from JSON has no callable property of its own: with an own
  \<^verbatim>\<open>toString\<close> property neither \<^verbatim>\<open>toString\<close> nor \<^verbatim>\<open>valueOf\<close> yields a primitive and
  the conversion raises \<^verbatim>\<open>TypeError\<close>; without one, \<^verbatim>\<open>Object.prototype.toString\<close>
  answers.
\<close>

fun to_string :: "jsval \<Rightarrow> failure + string" where
  "to_string Undefined = Inr ''undefined''"
| "to_string Null = Inr ''null''"
| "to_string (Bool b) = Inr (if b then ''true'' else ''false'')"
| "to_string (Num n) = Inr (number_to_string n)"
| "to_string (Str s) = Inr s"
| "to_string (Arr xs) =
     (case collect (map (\<lambda>x. if x = Undefined \<or> x = Null then Inr [] else to_string x) xs) of
        Inl err \<Rightarrow> Inl err
      | Inr ss \<Rightarrow> Inr (join_comma ss))"
| "to_string (Obj kvs) =
     (if map_of kvs ''toString'' \<noteq> None then Inl TypeError else Inr ''[object Object]'')"

text \<open>
  \<^verbatim>\<open>Number(v)\<close>, \<open>None\<close> for \<^verbatim>\<open>NaN\<close>. An array or an object is first made a primitive:
  \<^verbatim>\<open>valueOf\<close> gives none (the inherited one returns the object, an own one is not
  callable), so it is the string above, or \<^verbatim>\<open>TypeError\<close>.
\<close>

fun to_number :: "jsval \<Rightarrow> failure + number option" where
  "to_number Undefined = Inr None"
| "to_number Null = Inr (Some (Fin 0))"
| "to_number (Bool b) = Inr (Some (Fin (if b then 1 else 0)))"
| "to_number (Num n) = Inr (Some n)"
| "to_number (Str s) = Inr (string_to_number s)"
| "to_number (Arr xs) =
     (case to_string (Arr xs) of Inl err \<Rightarrow> Inl err | Inr s \<Rightarrow> Inr (string_to_number s))"
| "to_number (Obj kvs) =
     (case to_string (Obj kvs) of Inl err \<Rightarrow> Inl err | Inr s \<Rightarrow> Inr (string_to_number s))"

text \<open>\<^verbatim>\<open>!v\<close> is \<open>\<not> truthy v\<close>; it raises nothing.\<close>

fun truthy :: "jsval \<Rightarrow> bool" where
  "truthy Undefined = False"
| "truthy Null = False"
| "truthy (Bool b) = b"
| "truthy (Num n) = (n \<noteq> Fin 0)"
| "truthy (Str s) = (s \<noteq> [])"
| "truthy (Arr xs) = True"
| "truthy (Obj kvs) = True"

text \<open>
  \<^verbatim>\<open>v < c\<close> and \<^verbatim>\<open>v > c\<close> against a number \<open>c\<close>: false when \<open>v\<close> converts to \<^verbatim>\<open>NaN\<close>,
  \<^verbatim>\<open>TypeError\<close> when \<open>v\<close> does not convert.
\<close>

definition js_lt :: "jsval \<Rightarrow> rat \<Rightarrow> failure + bool" where
  "js_lt v c =
     (case to_number v of
        Inl err \<Rightarrow> Inl err
      | Inr None \<Rightarrow> Inr False
      | Inr (Some n) \<Rightarrow> Inr (num_less n (Fin c)))"

definition js_gt :: "jsval \<Rightarrow> rat \<Rightarrow> failure + bool" where
  "js_gt v c =
     (case to_number v of
        Inl err \<Rightarrow> Inl err
      | Inr None \<Rightarrow> Inr False
      | Inr (Some n) \<Rightarrow> Inr (num_less (Fin c) n))"

text \<open>\<^verbatim>\<open>rating < 1 || rating > 5\<close>, the right operand evaluated only when the left is false.\<close>

definition out_of_range :: "jsval \<Rightarrow> failure + bool" where
  "out_of_range r =
     (case js_lt r 1 of
        Inl err \<Rightarrow> Inl err
      | Inr b \<Rightarrow> if b then Inr True else js_gt r 5)"

section \<open>The Movie collection\<close>

text \<open>
  \<^verbatim>\<open>models/Movie.js\<close>: a Movie document has a unique \<^verbatim>\<open>title\<close>, the embedded
  \<^verbatim>\<open>reviews\<close> and, by \<^verbatim>\<open>{ timestamps: true }\<close>, \<^verbatim>\<open>createdAt\<close> and \<^verbatim>\<open>updatedAt\<close>; a
  Review has \<^verbatim>\<open>rating\<close> and \<^verbatim>\<open>comment\<close>; both get an \<^verbatim>\<open>_id\<close>. An ObjectId is the
  number its 24 hexadecimal digits write. A field holding \<^verbatim>\<open>null\<close> is \<open>None\<close>. The
  collection is the list of its documents; the clock, the ObjectId generated for the
  request and the state of the connection come with each request. The casts,
  validators and queries below are those of the Mongoose library the handlers call,
  each with the effect Mongoose documents for it.
\<close>

type_synonym objectid = int

record review =
  review_id :: objectid
  rating :: "number option"
  comment :: "string option"

record movie =
  movie_id :: objectid
  title :: string
  reviews :: "review list"
  createdAt :: nat
  updatedAt :: nat

type_synonym collection = "movie list"

record env =
  now :: nat
  new_id :: objectid
  reachable :: bool

subsection \<open>Casting and schema validators\<close>

text \<open>
  A path parameter is cast to an ObjectId; anything but 24 hexadecimal digits raises
  \<^verbatim>\<open>CastError\<close> (the handlers say so: "This handles invalid ID format (CastError)").
\<close>

definition castObjectId :: "string \<Rightarrow> objectid option" where
  "castObjectId s = (if length s = 24 then read_digits 16 0 s else None)"

definition own_id :: "jsval \<Rightarrow> jsval" where
  "own_id v =
     (case v of
        Obj kvs \<Rightarrow> (case map_of kvs ''_id'' of Some x \<Rightarrow> x | None \<Rightarrow> v)
      | _ \<Rightarrow> v)"

text \<open>
  The casts of a \<^verbatim>\<open>Number\<close> and of a \<^verbatim>\<open>String\<close> path: a string or boolean is
  converted with \<^verbatim>\<open>Number\<close>, the empty string reads as \<^verbatim>\<open>null\<close>, \<^verbatim>\<open>NaN\<close> and
  arrays are refused; a number or boolean is written with \<^verbatim>\<open>toString\<close>, arrays and
  plain objects are refused; an object stands for its \<^verbatim>\<open>_id\<close>.
\<close>

definition castNumber :: "jsval \<Rightarrow> failure + number option" where
  "castNumber v =
     (case own_id v of
        Undefined \<Rightarrow> Inr None
      | Null \<Rightarrow> Inr None
      | Bool b \<Rightarrow> Inr (Some (Fin (if b then 1 else 0)))
      | Num n \<Rightarrow> Inr (Some n)
      | Str s \<Rightarrow>
          if s = [] then Inr None
          else (case string_to_number s of None \<Rightarrow> Inl CastError | Some n \<Rightarrow> Inr (Some n))
      | Arr xs \<Rightarrow> Inl CastError
      | Obj kvs \<Rightarrow> Inl CastError)"

definition castString :: "jsval \<Rightarrow> failure + string option" where
  "castString v =
     (case v of
        Undefined \<Rightarrow> Inr None
      | Null \<Rightarrow> Inr None
      | Bool b \<Rightarrow> Inr (Some (if b then ''true'' else ''false''))
      | Num n \<Rightarrow> Inr (Some (number_to_string n))
      | Str s \<Rightarrow> Inr (Some s)
      | Arr xs \<Rightarrow> Inl CastError
      | Obj kvs \<Rightarrow>
          (case map_of kvs ''_id'' of
             Some (Str s) \<Rightarrow> if s = [] then Inl CastError else Inr (Some s)
           | _ \<Rightarrow> Inl CastError))"

text \<open>
  The validators of the schemas: \<^verbatim>\<open>rating: { required: true, min: 1, max: 5 }\<close>,
  \<^verbatim>\<open>comment: { required: true }\<close> and \<^verbatim>\<open>title: { required: true }\<close>; a required
  string is a non-empty one.
\<close>

definition valid_rating :: "number option \<Rightarrow> bool" where
  "valid_rating r =
     (case r of None \<Rightarrow> False | Some n \<Rightarrow> \<not> num_less n (Fin 1) \<and> \<not> num_less (Fin 5) n)"

definition valid_text :: "string option \<Rightarrow> bool" where
  "valid_text t = (case t of None \<Rightarrow> False | Some s \<Rightarrow> s \<noteq> [])"

subsection \<open>The queries the handlers issue\<close>

fun update_first :: "('a \<Rightarrow> bool) \<Rightarrow> ('a \<Rightarrow> 'a) \<Rightarrow> 'a list \<Rightarrow> 'a list" where
  "update_first P f [] = []"
| "update_first P f (x # xs) = (if P x then f x # xs else x # update_first P f xs)"

definition has_id :: "objectid \<Rightarrow> movie \<Rightarrow> bool" where
  "has_id i m = (movie_id m = i)"

definition has_review :: "objectid \<Rightarrow> movie \<Rightarrow> bool" where
  "has_review j m = (j \<in> set (map review_id (reviews m)))"

text \<open>\<^verbatim>\<open>Movie.find().sort({ title: 1 })\<close>\<close>

definition find_sorted :: "env \<Rightarrow> collection \<Rightarrow> failure + movie list" where
  "find_sorted e c = (if reachable e then Inr (sort_key title c) else Inl Unreachable)"

text \<open>\<^verbatim>\<open>Movie.findById(id)\<close>\<close>

definition findById :: "env \<Rightarrow> collection \<Rightarrow> string \<Rightarrow> failure + movie option" where
  "findById e c sid =
     (case castObjectId sid of
        None \<Rightarrow> Inl CastError
      | Some i \<Rightarrow> if reachable e then Inr (find (has_id i) c) else Inl Unreachable)"

text \<open>
  \<^verbatim>\<open>new Movie({ title }).save()\<close>: the document is validated, then inserted; the
  unique indexes on \<^verbatim>\<open>_id\<close> and \<^verbatim>\<open>title\<close> refuse a duplicate.
\<close>

definition new_movie :: "env \<Rightarrow> string \<Rightarrow> movie" where
  "new_movie e s =
     \<lparr>movie_id = new_id e, title = s, reviews = [], createdAt = now e, updatedAt = now e\<rparr>"

definition save :: "env \<Rightarrow> collection \<Rightarrow> jsval \<Rightarrow> failure + movie \<times> collection" where
  "save e c t =
     (case castString t of
        Inl err \<Rightarrow> Inl ValidationError
      | Inr s \<Rightarrow>
          if \<not> valid_text s then Inl ValidationError
          else if \<not> reachable e then Inl Unreachable
          else if new_id e \<in> set (map movie_id c) \<or> s \<in> set (map (Some \<circ> title) c)
          then Inl DuplicateKey
          else
            (let m = new_movie e (case s of None \<Rightarrow> [] | Some x \<Rightarrow> x)
             in Inr (m, c @ [m])))"

text \<open>
  \<^verbatim>\<open>Movie.findByIdAndUpdate(id, { title }, { new: true, runValidators: true })\<close>:
  \<^verbatim>\<open>null\<close> when no document has the id, an error when another document has the title.
\<close>

definition update_title ::
  "env \<Rightarrow> collection \<Rightarrow> string \<Rightarrow> jsval \<Rightarrow> failure + movie option \<times> collection" where
  "update_title e c sid t =
     (case castObjectId sid of
        None \<Rightarrow> Inl CastError
      | Some i \<Rightarrow>
          (case castString t of
             Inl err \<Rightarrow> Inl err
           | Inr s \<Rightarrow>
               if \<not> valid_text s then Inl ValidationError
               else if \<not> reachable e then Inl Unreachable
               else
                 (case find (has_id i) c of
                    None \<Rightarrow> Inr (None, c)
                  | Some m \<Rightarrow>
                      if s \<in> set (map (Some \<circ> title) (remove1 m c)) then Inl DuplicateKey
                      else
                        (let m' = m\<lparr>title := (case s of None \<Rightarrow> [] | Some x \<Rightarrow> x),
                                     updatedAt := now e\<rparr>
                         in Inr (Some m', update_first (has_id i) (\<lambda>_. m') c)))))"

text \<open>\<^verbatim>\<open>Movie.findByIdAndDelete(id)\<close>: the document as it was, or \<^verbatim>\<open>null\<close>.\<close>

definition findByIdAndDelete ::
  "env \<Rightarrow> collection \<Rightarrow> string \<Rightarrow> failure + movie option \<times> collection" where
  "findByIdAndDelete e c sid =
     (case castObjectId sid of
        None \<Rightarrow> Inl CastError
      | Some i \<Rightarrow>
          if \<not> reachable e then Inl Unreachable
          else
            (case find (has_id i) c of
               None \<Rightarrow> Inr (None, c)
             | Some m \<Rightarrow> Inr (Some m, remove1 m c)))"

text \<open>
  \<^verbatim>\<open>Movie.findByIdAndUpdate(id, { $push: { reviews: { rating, comment } } }, { new: true })\<close>:
  the new element is cast to the review schema and gets its \<^verbatim>\<open>_id\<close>; no validator
  runs.
\<close>

definition push_review ::
  "env \<Rightarrow> collection \<Rightarrow> string \<Rightarrow> jsval \<Rightarrow> jsval \<Rightarrow> failure + movie option \<times> collection"
  where
  "push_review e c sid r t =
     (case castObjectId sid of
        None \<Rightarrow> Inl CastError
      | Some i \<Rightarrow>
          (case castNumber r of
             Inl err \<Rightarrow> Inl err
           | Inr r' \<Rightarrow>
               (case castString t of
                  Inl err \<Rightarrow> Inl err
                | Inr t' \<Rightarrow>
                    if \<not> reachable e then Inl Unreachable
                    else
                      (case find (has_id i) c of
                         None \<Rightarrow> Inr (None, c)
                       | Some m \<Rightarrow>
                           (let m' = m\<lparr>reviews := reviews m @
                                          [\<lparr>review_id = new_id e, rating = r', comment = t'\<rparr>],
                                        updatedAt := now e\<rparr>
                            in Inr (Some m', update_first (has_id i) (\<lambda>_. m') c))))))"

text \<open>
  \<^verbatim>\<open>Movie.findByIdAndUpdate(movieId, { $pull: { reviews: { _id: reviewId } } }, { new: true })\<close>:
  the condition is cast as a query on the review schema, then every element it
  matches is removed.
\<close>

definition pull_review ::
  "env \<Rightarrow> collection \<Rightarrow> string \<Rightarrow> string \<Rightarrow> failure + movie option \<times> collection" where
  "pull_review e c sid srid =
     (case castObjectId sid of
        None \<Rightarrow> Inl CastError
      | Some i \<Rightarrow>
          (case castObjectId srid of
             None \<Rightarrow> Inl CastError
           | Some j \<Rightarrow>
               if \<not> reachable e then Inl Unreachable
               else
                 (case find (has_id i) c of
                    None \<Rightarrow> Inr (None, c)
                  | Some m \<Rightarrow>
                      (let m' = m\<lparr>reviews := filter (\<lambda>x. review_id x \<noteq> j) (reviews m),
                                   updatedAt := now e\<rparr>
                       in Inr (Some m', update_first (has_id i) (\<lambda>_. m') c)))))"

text \<open>
  The \<^verbatim>\<open>updateFields\<close> of the PATCH handlers: a field is set only when the body
  carries it (\<^verbatim>\<open>if (rating !== undefined) updateFields['reviews.$.rating'] = rating\<close>).
  Each field present is cast and, by \<^verbatim>\<open>runValidators: true\<close>, validated.
\<close>

definition cast_field ::
  "(jsval \<Rightarrow> failure + 'a option) \<Rightarrow> ('a option \<Rightarrow> bool) \<Rightarrow> jsval \<Rightarrow>
     failure + 'a option option" where
  "cast_field cast valid v =
     (if v = Undefined then Inr None
      else
        (case cast v of
           Inl err \<Rightarrow> Inl err
         | Inr x \<Rightarrow> if valid x then Inr (Some x) else Inl ValidationError))"

definition set_fields :: "number option option \<Rightarrow> string option option \<Rightarrow> review \<Rightarrow> review" where
  "set_fields r t x =
     x\<lparr>rating := (case r of None \<Rightarrow> rating x | Some r' \<Rightarrow> r'),
       comment := (case t of None \<Rightarrow> comment x | Some t' \<Rightarrow> t')\<rparr>"

text \<open>
  \<^verbatim>\<open>Movie.findOneAndUpdate({ _id: movieId, 'reviews._id': reviewId }, { $set: updateFields },
  { new: true, runValidators: true })\<close>: the positional \<^verbatim>\<open>$\<close> is the first element of
  \<^verbatim>\<open>reviews\<close> that the query matched; \<^verbatim>\<open>null\<close> when no document matches the query.
\<close>

definition set_review ::
  "env \<Rightarrow> collection \<Rightarrow> string \<Rightarrow> string \<Rightarrow> jsval \<Rightarrow> jsval \<Rightarrow>
     failure + movie option \<times> collection" where
  "set_review e c sid srid r t =
     (case castObjectId sid of
        None \<Rightarrow> Inl CastError
      | Some i \<Rightarrow>
          (case castObjectId srid of
             None \<Rightarrow> Inl CastError
           | Some j \<Rightarrow>
               (case cast_field castNumber valid_rating r of
                  Inl err \<Rightarrow> Inl err
                | Inr r' \<Rightarrow>
                    (case cast_field castString valid_text t of
                       Inl err \<Rightarrow> Inl err
                     | Inr t' \<Rightarrow>
                         if \<not> reachable e then Inl Unreachable
                         else
                           (case find (\<lambda>m. has_id i m \<and> has_review j m) c of
                              None \<Rightarrow> Inr (None, c)
                            | Some m \<Rightarrow>
                                (let m' = m\<lparr>reviews := update_first (\<lambda>x. review_id x = j)
                                                          (set_fields r' t') (reviews m),
                                             updatedAt := now e\<rparr>
                                 in Inr (Some m',
                                      update_first (\<lambda>m. has_id i m \<and> has_review j m)
                                        (\<lambda>_. m') c)))))))"

section \<open>The request handlers\<close>

text \<open>
  A handler answers with a status and a JSON body, and leaves the collection as its
  query left it. \<open>Failure\<close> is the body \<^verbatim>\<open>{ message: err.message }\<close> of a \<^verbatim>\<open>catch\<close>.
\<close>

datatype payload =
    Movies "movie list"
  | Doc movie
  | ReviewsOf string string "review list"
  | Message string
  | Failure failure

type_synonym response = "nat \<times> payload"

text \<open>\<^verbatim>\<open>router.get('/movies')\<close>\<close>

definition get_movies :: "env \<Rightarrow> collection \<Rightarrow> response \<times> collection" where
  "get_movies e c =
     (case find_sorted e c of
        Inl err \<Rightarrow> ((500, Failure err), c)
      | Inr ms \<Rightarrow> ((200, Movies ms), c))"

text \<open>\<^verbatim>\<open>router.get('/movies/:id')\<close>, and the same handler of \<^verbatim>\<open>moby.js\<close>\<close>

definition get_movie :: "env \<Rightarrow> collection \<Rightarrow> string \<Rightarrow> response \<times> collection" where
  "get_movie e c sid =
     (case findById e c sid of
        Inl err \<Rightarrow> ((500, Failure err), c)
      | Inr None \<Rightarrow> ((404, Message ''MOVIE NOT FOUND!''), c)
      | Inr (Some m) \<Rightarrow> ((200, Doc m), c))"

text \<open>\<^verbatim>\<open>router.post('/movies')\<close>\<close>

definition post_movie :: "env \<Rightarrow> collection \<Rightarrow> jsval \<Rightarrow> response \<times> collection" where
  "post_movie e c t =
     (if \<not> truthy t then ((400, Message ''TITLE REQUIRED!''), c)
      else
        (case save e c t of
           Inl err \<Rightarrow> ((400, Failure err), c)
         | Inr (m, c') \<Rightarrow> ((201, Doc m), c')))"

text \<open>\<^verbatim>\<open>router.put('/movies/:id')\<close>\<close>

definition put_movie :: "env \<Rightarrow> collection \<Rightarrow> string \<Rightarrow> jsval \<Rightarrow> response \<times> collection" where
  "put_movie e c sid t =
     (if \<not> truthy t then ((400, Message ''NEW TITLE REQUIRED!''), c)
      else
        (case update_title e c sid t of
           Inl err \<Rightarrow> ((400, Failure err), c)
         | Inr (None, c') \<Rightarrow> ((404, Message ''MOVIE NOT FOUND!''), c')
         | Inr (Some m, c') \<Rightarrow> ((200, Doc m), c')))"

text \<open>\<^verbatim>\<open>router.delete('/movies/:id')\<close>\<close>

definition delete_movie :: "env \<Rightarrow> collection \<Rightarrow> string \<Rightarrow> response \<times> collection" where
  "delete_movie e c sid =
     (case findByIdAndDelete e c sid of
        Inl err \<Rightarrow> ((500, Failure err), c)
      | Inr (None, c') \<Rightarrow> ((404, Message ''MOVIE NOT FOUND!''), c')
      | Inr (Some m, c') \<Rightarrow> ((200, Doc m), c'))"

text \<open>\<^verbatim>\<open>router.get('/movies/:id/reviews')\<close>\<close>

definition get_reviews :: "env \<Rightarrow> collection \<Rightarrow> string \<Rightarrow> response \<times> collection" where
  "get_reviews e c sid =
     (case findById e c sid of
        Inl err \<Rightarrow> ((500, Failure err), c)
      | Inr None \<Rightarrow> ((404, Message ''MOVIE NOT FOUND!''), c)
      | Inr (Some m) \<Rightarrow> ((200, ReviewsOf sid (title m) (reviews m)), c))"

text \<open>
  The three handlers below compare the rating before their \<^verbatim>\<open>try\<close>. When the
  comparison raises \<^verbatim>\<open>TypeError\<close> the handler has answered nothing and issued no
  query: its result is \<open>Inl TypeError\<close>, and what the client then gets is left to
  Express.

  \<^verbatim>\<open>router.post('/movies/:id/reviews')\<close>, with its check
  \<^verbatim>\<open>rating === undefined || comment === undefined || rating < 1 || rating > 5\<close>
\<close>

definition post_review_invalid :: "jsval \<Rightarrow> jsval \<Rightarrow> failure + bool" where
  "post_review_invalid r t =
     (if r = Undefined \<or> t = Undefined then Inr True else out_of_range r)"

definition post_review ::
  "env \<Rightarrow> collection \<Rightarrow> string \<Rightarrow> jsval \<Rightarrow> jsval \<Rightarrow> failure + response \<times> collection"
  where
  "post_review e c sid r t =
     (case post_review_invalid r t of
        Inl err \<Rightarrow> Inl err
      | Inr invalid \<Rightarrow>
          if invalid then Inr ((400, Message ''INVALID COMMENT AND/OR RATING!''), c)
          else
            (case push_review e c sid r t of
               Inl err \<Rightarrow> Inr ((400, Failure err), c)
             | Inr (None, c') \<Rightarrow> Inr ((404, Message ''MOVIE NOT FOUND!''), c')
             | Inr (Some m, c') \<Rightarrow> Inr ((200, Doc m), c')))"

text \<open>
  \<^verbatim>\<open>router.patch('/movies/:movieId/reviews/:reviewId')\<close> of \<^verbatim>\<open>routes/movieRoutes.js\<close>,
  with its check
  \<^verbatim>\<open>(rating !== undefined && (rating < 1 || rating > 5)) || (rating === undefined && comment === undefined)\<close>
\<close>

definition patch_review_invalid :: "jsval \<Rightarrow> jsval \<Rightarrow> failure + bool" where
  "patch_review_invalid r t =
     (if r \<noteq> Undefined then
        (case out_of_range r of
           Inl err \<Rightarrow> Inl err
         | Inr b \<Rightarrow> if b then Inr True else Inr (r = Undefined \<and> t = Undefined))
      else Inr (r = Undefined \<and> t = Undefined))"

definition patch_review ::
  "env \<Rightarrow> collection \<Rightarrow> string \<Rightarrow> string \<Rightarrow> jsval \<Rightarrow> jsval \<Rightarrow>
     failure + response \<times> collection" where
  "patch_review e c sid srid r t =
     (case patch_review_invalid r t of
        Inl err \<Rightarrow> Inl err
      | Inr invalid \<Rightarrow>
          if invalid
          then Inr ((400, Message ''INVALID RATING (must be 1-5) OR MISSING DATA.''), c)
          else
            (case set_review e c sid srid r t of
               Inl err \<Rightarrow> Inr ((400, Failure err), c)
             | Inr (None, c') \<Rightarrow> Inr ((404, Message ''MOVIE or REVIEW NOT FOUND!''), c')
             | Inr (Some m, c') \<Rightarrow> Inr ((200, Doc m), c')))"

text \<open>
  \<^verbatim>\<open>app.patch('/api/v1/movies/:movieId/reviews/:reviewId')\<close> of the single-file server,
  with its check
  \<^verbatim>\<open>(rating !== undefined && (rating < 1 || rating > 5)) || (!rating && !comment)\<close>
\<close>

definition app_patch_review_invalid :: "jsval \<Rightarrow> jsval \<Rightarrow> failure + bool" where
  "app_patch_review_invalid r t =
     (if r \<noteq> Undefined then
        (case out_of_range r of
           Inl err \<Rightarrow> Inl err
         | Inr b \<Rightarrow> if b then Inr True else Inr (\<not> truthy r \<and> \<not> truthy t))
      else Inr (\<not> truthy r \<and> \<not> truthy t))"

definition app_patch_review ::
  "env \<Rightarrow> collection \<Rightarrow> string \<Rightarrow> string \<Rightarrow> jsval \<Rightarrow> jsval \<Rightarrow>
     failure + response \<times> collection" where
  "app_patch_review e c sid srid r t =
     (case app_patch_review_invalid r t of
        Inl err \<Rightarrow> Inl err
      | Inr invalid \<Rightarrow>
          if invalid
          then Inr ((400, Message ''INVALID RATING (must be 1-5) OR MISSING DATA.''), c)
          else
            (case set_review e c sid srid r t of
               Inl err \<Rightarrow> Inr ((400, Failure err), c)
             | Inr (None, c') \<Rightarrow> Inr ((404, Message ''MOVIE or REVIEW NOT FOUND!''), c')
             | Inr (Some m, c') \<Rightarrow> Inr ((200, Doc m), c')))"

text \<open>\<^verbatim>\<open>router.delete('/movies/:movieId/reviews/:reviewId')\<close>\<close>

definition delete_review ::
  "env \<Rightarrow> collection \<Rightarrow> string \<Rightarrow> string \<Rightarrow> response \<times> collection" where
  "delete_review e c sid srid =
     (case pull_review e c sid srid of
        Inl err \<Rightarrow> ((500, Failure err), c)
      | Inr (None, c') \<Rightarrow> ((404, Message ''MOVIE NOT FOUND!''), c')
      | Inr (Some m, c') \<Rightarrow> ((200, Doc m), c'))"

section \<open>A collection and requests to run the handlers on\<close>

text \<open>
  The Movies "Inception" with one Review, "Alien" with none and "The Matrix" with
  three, as the database holds them, the path parameters that name them, and requests
  served at the times 7 and 8 while the database answers.
\<close>

definition great :: review where
  "great = \<lparr>review_id = 2, rating = Some (Fin 5), comment = Some ''Great''\<rparr>"

definition inception :: movie where
  "inception =
     \<lparr>movie_id = 1, title = ''Inception'', reviews = [great], createdAt = 1, updatedAt = 1\<rparr>"

definition alien :: movie where
  "alien = \<lparr>movie_id = 4, title = ''Alien'', reviews = [], createdAt = 2, updatedAt = 2\<rparr>"

definition slow :: review where
  "slow = \<lparr>review_id = 6, rating = Some (Fin 2), comment = Some ''Slow''\<rparr>"

definition clever :: review where
  "clever = \<lparr>review_id = 7, rating = Some (Fin 4), comment = Some ''Clever''\<rparr>"

definition loud :: review where
  "loud = \<lparr>review_id = 8, rating = Some (Fin 3), comment = Some ''Loud''\<rparr>"

definition matrix :: movie where
  "matrix =
     \<lparr>movie_id = 5, title = ''The Matrix'', reviews = [slow, clever, loud],
      createdAt = 3, updatedAt = 4\<rparr>"

definition oid_1 :: string where
  "oid_1 = ''000000000000000000000001''"

definition oid_2 :: string where
  "oid_2 = ''000000000000000000000002''"

definition oid_3 :: string where
  "oid_3 = ''000000000000000000000003''"

definition oid_5 :: string where
  "oid_5 = ''000000000000000000000005''"

definition oid_7 :: string where
  "oid_7 = ''000000000000000000000007''"

definition request :: env where
  "request = \<lparr>now = 7, new_id = 9, reachable = True\<rparr>"

definition later_request :: env where
  "later_request = \<lparr>now = 8, new_id = 10, reachable = True\<rparr>"

section \<open>Lists and path parameters\<close>

lemma update_first_append:
  "\<forall>y\<in>set ys. \<not> P y \<Longrightarrow> P x \<Longrightarrow> update_first P f (ys @ x # zs) = ys @ f x # zs"
  by (induction ys) auto

lemma find_decompose:
  "find P xs = Some x \<Longrightarrow> \<exists>ys zs. xs = ys @ x # zs \<and> P x \<and> (\<forall>y\<in>set ys. \<not> P y)"
proof (induction xs)
  case Nil
  then show ?case by simp
next
  case (Cons a xs)
  show ?case
  proof (cases "P a")
    case True
    with Cons.prems have "a = x" by simp
    with True show ?thesis by (intro exI[of _ "[]"] exI[of _ xs]) simp
  next
    case False
    with Cons.prems have "find P xs = Some x" by simp
    from Cons.IH[OF this] obtain ys zs
      where "xs = ys @ x # zs" "P x" "\<forall>y\<in>set ys. \<not> P y" by blast
    with False show ?thesis by (intro exI[of _ "a # ys"] exI[of _ zs]) simp
  qed
qed

lemma cast_oid_1: "castObjectId oid_1 = Some 1"
  by (simp add: oid_1_def castObjectId_def digit_of_def)

lemma cast_oid_2: "castObjectId oid_2 = Some 2"
  by (simp add: oid_2_def castObjectId_def digit_of_def)

lemma cast_oid_3: "castObjectId oid_3 = Some 3"
  by (simp add: oid_3_def castObjectId_def digit_of_def)

lemma cast_abc: "castObjectId ''abc'' = None"
  by (simp add: castObjectId_def)

lemma find_inception: "find (has_id 1) [inception] = Some inception"
  by (simp add: has_id_def inception_def)

lemma find_great:
  "find (\<lambda>m. has_id 1 m \<and> has_review 2 m) [inception] = Some inception"
  by (simp add: has_id_def has_review_def inception_def great_def)

lemma request_reachable: "reachable request"
  by (simp add: request_def)

section \<open>Reading a Movie: \<^verbatim>\<open>GET /movies/{id}\<close>\<close>

text \<open>
  C6, as the handlers have it. A Movie that is absent under a well-formed identifier
  is answered 404. A malformed identifier is not: the cast raises, and the
  \<^verbatim>\<open>catch\<close> of the handler answers 500, as it does when the database fails. So 500
  is the answer exactly for a malformed identifier or an unreachable database, 404
  exactly for a well-formed identifier that no stored Movie has, and 200 exactly when
  the Movie is found; the collection is never changed.
\<close>

theorem get_movie_outcomes:
  "(fst (fst (get_movie e c sid)) = 500 \<longleftrightarrow> castObjectId sid = None \<or> \<not> reachable e) \<and>
   (fst (fst (get_movie e c sid)) = 404 \<longleftrightarrow>
      (\<exists>i. castObjectId sid = Some i \<and> reachable e \<and> find (has_id i) c = None)) \<and>
   (fst (fst (get_movie e c sid)) = 200 \<longleftrightarrow>
      (\<exists>i m. castObjectId sid = Some i \<and> reachable e \<and> find (has_id i) c = Some m)) \<and>
   snd (get_movie e c sid) = c"
  by (auto simp: get_movie_def findById_def split: option.splits)

theorem get_movie_outcomes_witness:
  "castObjectId oid_3 = Some 3 \<and> reachable request \<and> find (has_id 3) [inception] = None \<and>
   fst (fst (get_movie request [inception] oid_3)) = 404 \<and>
   castObjectId ''abc'' = None \<and>
   fst (fst (get_movie request [inception] ''abc'')) = 500"
proof -
  have absent: "find (has_id 3) [inception] = None"
    by (simp add: has_id_def inception_def)
  from get_movie_outcomes[of request "[inception]" oid_3]
    get_movie_outcomes[of request "[inception]" "''abc''"]
    cast_oid_3 cast_abc request_reachable absent
  show ?thesis by simp
qed

text \<open>
  The claim as the specification states it fails: on the identifier \<^verbatim>\<open>abc\<close>, with
  the database reachable, the answer is 500 and not 404.
\<close>

theorem get_movie_malformed_id_counterexample:
  "get_movie request [inception] ''abc'' = ((500, Failure CastError), [inception])"
  by code_simp

section \<open>Deleting a Review: \<^verbatim>\<open>DELETE /movies/{movieId}/reviews/{reviewId}\<close>\<close>

lemma delete_review_found:
  assumes "reachable e" and "castObjectId sid = Some i" and "castObjectId srid = Some j"
    and "find (has_id i) c = Some m"
  shows "\<exists>ms1 ms2 m'. c = ms1 @ m # ms2 \<and>
           delete_review e c sid srid = ((200, Doc m'), ms1 @ m' # ms2) \<and>
           m' = m\<lparr>reviews := filter (\<lambda>x. review_id x \<noteq> j) (reviews m), updatedAt := now e\<rparr> \<and>
           (j \<notin> review_id ` set (reviews m) \<longrightarrow> reviews m' = reviews m)"
proof -
  from find_decompose[OF assms(4)] obtain ms1 ms2
    where c: "c = ms1 @ m # ms2" and m: "has_id i m" and ms1: "\<forall>y\<in>set ms1. \<not> has_id i y"
    by blast
  let ?m' = "m\<lparr>reviews := filter (\<lambda>x. review_id x \<noteq> j) (reviews m), updatedAt := now e\<rparr>"
  have upd: "update_first (has_id i) (\<lambda>_. ?m') c = ms1 @ ?m' # ms2"
    unfolding c using ms1 m by (rule update_first_append)
  have "delete_review e c sid srid = ((200, Doc ?m'), ms1 @ ?m' # ms2)"
    using assms upd by (simp add: delete_review_def pull_review_def Let_def)
  moreover have "j \<notin> review_id ` set (reviews m) \<longrightarrow> reviews ?m' = reviews m"
    by (auto simp: filter_id_conv)
  ultimately show ?thesis using c by blast
qed

lemma delete_review_not_found:
  "fst (fst (delete_review e c sid srid)) = 404 \<longleftrightarrow>
     (\<exists>i j. castObjectId sid = Some i \<and> castObjectId srid = Some j \<and> reachable e \<and>
            find (has_id i) c = None)"
  by (auto simp: delete_review_def pull_review_def Let_def split: option.splits)

lemma delete_review_malformed:
  "castObjectId sid = None \<or> castObjectId srid = None \<Longrightarrow>
     delete_review e c sid srid = ((500, Failure CastError), c)"
  by (auto simp: delete_review_def pull_review_def split: option.splits)

text \<open>
  C1, for the review identifiers that are well formed. For every stored Movie and
  every well-formed review identifier, with the database reachable, the answer is 200
  with the Movie as it is after the update: the Reviews with that identifier are
  removed, the others stay in their order, and when no Review has the identifier the
  Reviews are as they were; the other Movies are untouched. The answer is 404 only
  when no stored Movie has the (well-formed) movie identifier. A malformed movie or
  review identifier is answered 500 from the \<^verbatim>\<open>catch\<close>, and nothing is changed.
\<close>

theorem delete_review_well_formed:
  "(reachable e \<and> castObjectId sid = Some i \<and> castObjectId srid = Some j \<and>
    find (has_id i) c = Some m \<longrightarrow>
      (\<exists>ms1 ms2 m'. c = ms1 @ m # ms2 \<and>
         delete_review e c sid srid = ((200, Doc m'), ms1 @ m' # ms2) \<and>
         m' = m\<lparr>reviews := filter (\<lambda>x. review_id x \<noteq> j) (reviews m), updatedAt := now e\<rparr> \<and>
         (j \<notin> review_id ` set (reviews m) \<longrightarrow> reviews m' = reviews m))) \<and>
   (fst (fst (delete_review e c sid srid)) = 404 \<longrightarrow>
      (\<exists>i. castObjectId sid = Some i \<and> find (has_id i) c = None)) \<and>
   (castObjectId sid = None \<or> castObjectId srid = None \<longrightarrow>
      delete_review e c sid srid = ((500, Failure CastError), c))"
  using delete_review_found[of e sid i srid j c m] delete_review_not_found[of e c sid srid]
    delete_review_malformed[of sid srid e c]
  by blast

theorem delete_review_well_formed_witness:
  "reachable request \<and> castObjectId oid_1 = Some 1 \<and> castObjectId oid_3 = Some 3 \<and>
   find (has_id 1) [inception] = Some inception \<and>
   3 \<notin> review_id ` set (reviews inception) \<and>
   (\<exists>m'. delete_review request [inception] oid_1 oid_3 = ((200, Doc m'), [m']) \<and>
         reviews m' = reviews inception) \<and>
   castObjectId ''abc'' = None \<and>
   delete_review request [inception] ''abc'' oid_2 = ((500, Failure CastError), [inception])"
proof -
  have no: "3 \<notin> review_id ` set (reviews inception)"
    by (simp add: inception_def great_def)
  from delete_review_well_formed[of request oid_1 1 oid_3 3 "[inception]" inception]
    request_reachable cast_oid_1 cast_oid_3 find_inception no
  obtain ms1 ms2 m' where
    "[inception] = ms1 @ inception # ms2"
    "delete_review request [inception] oid_1 oid_3 = ((200, Doc m'), ms1 @ m' # ms2)"
    "reviews m' = reviews inception"
    by blast
  moreover from this(1) have "ms1 = [] \<and> ms2 = []"
    by (cases ms1) auto
  ultimately have "\<exists>m'. delete_review request [inception] oid_1 oid_3 = ((200, Doc m'), [m']) \<and>
         reviews m' = reviews inception"
    by auto
  moreover from delete_review_well_formed[of request "''abc''" _ oid_2 _ "[inception]"] cast_abc
  have "delete_review request [inception] ''abc'' oid_2 = ((500, Failure CastError), [inception])"
    by blast
  ultimately show ?thesis
    using request_reachable cast_oid_1 cast_oid_3 find_inception no cast_abc by simp
qed

text \<open>
  The claim for every review identifier fails: the \<^verbatim>\<open>$pull\<close> condition is cast as a
  query, so the malformed identifier \<^verbatim>\<open>abc\<close> raises, and the handler answers 500
  for a Movie that exists.
\<close>

theorem delete_review_malformed_id_counterexample:
  "delete_review request [inception] oid_1 ''abc'' = ((500, Failure CastError), [inception])"
  by code_simp

section \<open>Updating a Review: \<^verbatim>\<open>PATCH /movies/{movieId}/reviews/{reviewId}\<close>\<close>

lemma find_matrix:
  "find (\<lambda>m. has_id 5 m \<and> has_review 7 m) [alien, matrix, inception] = Some matrix"
  by (simp add: has_id_def has_review_def alien_def matrix_def slow_def clever_def loud_def)

lemma cast_oid_5: "castObjectId oid_5 = Some 5"
  by (simp add: oid_5_def castObjectId_def digit_of_def)

lemma cast_oid_7: "castObjectId oid_7 = Some 7"
  by (simp add: oid_7_def castObjectId_def digit_of_def)

text \<open>
  C2, with the timestamp the store maintains. When the check of the handler
  evaluates to false (it has not raised), the query matches a Movie \<open>m\<close> with a
  Review of the given identifier and the store accepts the body, the answer is 200
  and exactly one element of \<open>reviews m\<close> is replaced: the first Review \<open>x\<close> with the
  identifier. The elements before and after it, and their order, are as they were;
  \<open>x\<close> keeps its identifier, takes the rating and the comment the body supplies (as
  the store casts them), keeps its rating when the body carries no rating and keeps
  its comment when the body carries no comment. Of the Movie's other fields,
  \<open>movie_id\<close>, \<open>title\<close> and \<open>createdAt\<close> are unchanged and \<open>updatedAt\<close> becomes the time
  of the request; the other Movies are untouched.
\<close>

theorem patch_review_frame:
  assumes "reachable e" and "castObjectId sid = Some i" and "castObjectId srid = Some j"
    and "find (\<lambda>m. has_id i m \<and> has_review j m) c = Some m"
    and "patch_review_invalid r t = Inr False"
    and "cast_field castNumber valid_rating r = Inr r'"
    and "cast_field castString valid_text t = Inr t'"
  shows "\<exists>ms1 ms2 xs x ys x'.
           c = ms1 @ m # ms2 \<and> reviews m = xs @ x # ys \<and>
           review_id x = j \<and> j \<notin> review_id ` set xs \<and>
           patch_review e c sid srid r t =
             Inr ((200, Doc (m\<lparr>reviews := xs @ x' # ys, updatedAt := now e\<rparr>)),
                  ms1 @ m\<lparr>reviews := xs @ x' # ys, updatedAt := now e\<rparr> # ms2) \<and>
           review_id x' = review_id x \<and>
           rating x' = (case r' of None \<Rightarrow> rating x | Some v \<Rightarrow> v) \<and>
           comment x' = (case t' of None \<Rightarrow> comment x | Some v \<Rightarrow> v) \<and>
           (r = Undefined \<longrightarrow> rating x' = rating x) \<and>
           (t = Undefined \<longrightarrow> comment x' = comment x)"
proof -
  let ?Q = "\<lambda>m. has_id i m \<and> has_review j m"
  from find_decompose[OF assms(4)] obtain ms1 ms2
    where c: "c = ms1 @ m # ms2" and m: "?Q m" and ms1: "\<forall>y\<in>set ms1. \<not> ?Q y"
    by blast
  from m have "\<exists>x. find (\<lambda>x. review_id x = j) (reviews m) = Some x"
    by (cases "find (\<lambda>x. review_id x = j) (reviews m)") (auto simp: has_review_def find_None_iff)
  then obtain x where "find (\<lambda>x. review_id x = j) (reviews m) = Some x" ..
  from find_decompose[OF this] obtain xs ys
    where rs: "reviews m = xs @ x # ys" and x: "review_id x = j"
      and xs: "\<forall>y\<in>set xs. \<not> review_id y = j"
    by blast
  let ?x' = "set_fields r' t' x"
  let ?m' = "m\<lparr>reviews := xs @ ?x' # ys, updatedAt := now e\<rparr>"
  have inner: "update_first (\<lambda>x. review_id x = j) (set_fields r' t') (reviews m) = xs @ ?x' # ys"
    unfolding rs using xs x by (rule update_first_append)
  have outer: "update_first ?Q (\<lambda>_. ?m') c = ms1 @ ?m' # ms2"
    unfolding c using ms1 m by (rule update_first_append)
  have run: "patch_review e c sid srid r t = Inr ((200, Doc ?m'), ms1 @ ?m' # ms2)"
    using assms inner outer by (simp add: patch_review_def set_review_def Let_def)
  have rv: "rating ?x' = (case r' of None \<Rightarrow> rating x | Some v \<Rightarrow> v)"
    by (simp add: set_fields_def)
  have tv: "comment ?x' = (case t' of None \<Rightarrow> comment x | Some v \<Rightarrow> v)"
    by (simp add: set_fields_def)
  have r: "r = Undefined \<longrightarrow> rating ?x' = rating x"
    using assms(6) by (auto simp: cast_field_def set_fields_def)
  have t: "t = Undefined \<longrightarrow> comment ?x' = comment x"
    using assms(7) by (auto simp: cast_field_def set_fields_def)
  have i: "review_id ?x' = review_id x" by (simp add: set_fields_def)
  have n: "j \<notin> review_id ` set xs" using xs by auto
  from c rs x n run i rv tv r t show ?thesis
    by (intro exI[of _ ms1] exI[of _ ms2] exI[of _ xs] exI[of _ x] exI[of _ ys] exI[of _ ?x'] conjI)
qed

text \<open>
  Patching only the comment of the second of the three Reviews of "The Matrix", the
  second of three Movies: the Reviews around it and the Movies around it are as they
  were, the rating stays 4 and the comment becomes \<^verbatim>\<open>"x"\<close>.
\<close>

theorem patch_review_frame_witness:
  "reachable request \<and> castObjectId oid_5 = Some 5 \<and> castObjectId oid_7 = Some 7 \<and>
   find (\<lambda>m. has_id 5 m \<and> has_review 7 m) [alien, matrix, inception] = Some matrix \<and>
   patch_review_invalid Undefined (Str ''x'') = Inr False \<and>
   cast_field castNumber valid_rating Undefined = Inr None \<and>
   cast_field castString valid_text (Str ''x'') = Inr (Some (Some ''x'')) \<and>
   (\<exists>ms1 ms2 xs x ys x'.
      [alien, matrix, inception] = ms1 @ matrix # ms2 \<and> reviews matrix = xs @ x # ys \<and>
      review_id x = 7 \<and> 7 \<notin> review_id ` set xs \<and>
      patch_review request [alien, matrix, inception] oid_5 oid_7 Undefined (Str ''x'') =
        Inr ((200, Doc (matrix\<lparr>reviews := xs @ x' # ys, updatedAt := now request\<rparr>)),
             ms1 @ matrix\<lparr>reviews := xs @ x' # ys, updatedAt := now request\<rparr> # ms2) \<and>
      review_id x' = review_id x \<and> rating x' = rating x \<and> comment x' = Some ''x'') \<and>
   patch_review request [alien, matrix, inception] oid_5 oid_7 Undefined (Str ''x'') =
     Inr ((200, Doc \<lparr>movie_id = 5, title = ''The Matrix'',
                       reviews = [slow,
                                  \<lparr>review_id = 7, rating = Some (Fin 4), comment = Some ''x''\<rparr>,
                                  loud],
                       createdAt = 3, updatedAt = 7\<rparr>),
          [alien,
           \<lparr>movie_id = 5, title = ''The Matrix'',
             reviews = [slow,
                        \<lparr>review_id = 7, rating = Some (Fin 4), comment = Some ''x''\<rparr>,
                        loud],
             createdAt = 3, updatedAt = 7\<rparr>,
           inception])"
proof -
  have valid: "patch_review_invalid Undefined (Str ''x'') = Inr False"
    by (simp add: patch_review_invalid_def)
  have r: "cast_field castNumber valid_rating Undefined = Inr None"
    by (simp add: cast_field_def)
  have t: "cast_field castString valid_text (Str ''x'') = Inr (Some (Some ''x''))"
    by (simp add: cast_field_def castString_def valid_text_def)
  have frame: "\<exists>ms1 ms2 xs x ys x'.
      [alien, matrix, inception] = ms1 @ matrix # ms2 \<and> reviews matrix = xs @ x # ys \<and>
      review_id x = 7 \<and> 7 \<notin> review_id ` set xs \<and>
      patch_review request [alien, matrix, inception] oid_5 oid_7 Undefined (Str ''x'') =
        Inr ((200, Doc (matrix\<lparr>reviews := xs @ x' # ys, updatedAt := now request\<rparr>)),
             ms1 @ matrix\<lparr>reviews := xs @ x' # ys, updatedAt := now request\<rparr> # ms2) \<and>
      review_id x' = review_id x \<and> rating x' = rating x \<and> comment x' = Some ''x''"
    using patch_review_frame[OF request_reachable cast_oid_5 cast_oid_7 find_matrix valid r t]
    apply (elim exE conjE)
    apply (intro exI conjI)
           apply assumption+
     apply simp_all
    done
  have run: "patch_review request [alien, matrix, inception] oid_5 oid_7 Undefined (Str ''x'') =
     Inr ((200, Doc \<lparr>movie_id = 5, title = ''The Matrix'',
                       reviews = [slow,
                                  \<lparr>review_id = 7, rating = Some (Fin 4), comment = Some ''x''\<rparr>,
                                  loud],
                       createdAt = 3, updatedAt = 7\<rparr>),
          [alien,
           \<lparr>movie_id = 5, title = ''The Matrix'',
             reviews = [slow,
                        \<lparr>review_id = 7, rating = Some (Fin 4), comment = Some ''x''\<rparr>,
                        loud],
             createdAt = 3, updatedAt = 7\<rparr>,
           inception])"
    by code_simp
  from request_reachable cast_oid_5 cast_oid_7 find_matrix valid r t frame run
  show ?thesis by (intro conjI)
qed

text \<open>
  The claim that every other field of the Movie is left unchanged fails on
  \<open>updatedAt\<close>: patching the comment of the Review of "Inception" at time 7 returns
  and stores the Movie with \<open>updatedAt = 7\<close>, where it was 1.
\<close>

theorem patch_review_updatedAt_counterexample:
  "patch_review request [inception] oid_1 oid_2 Undefined (Str ''x'') =
     Inr ((200, Doc \<lparr>movie_id = 1, title = ''Inception'',
                       reviews = [\<lparr>review_id = 2, rating = Some (Fin 5), comment = Some ''x''\<rparr>],
                       createdAt = 1, updatedAt = 7\<rparr>),
          [\<lparr>movie_id = 1, title = ''Inception'',
            reviews = [\<lparr>review_id = 2, rating = Some (Fin 5), comment = Some ''x''\<rparr>],
            createdAt = 1, updatedAt = 7\<rparr>]) \<and>
   updatedAt inception = 1"
  by code_simp




lemma falsy_below_one: "v \<noteq> Undefined \<Longrightarrow> \<not> truthy v \<Longrightarrow> js_lt v 1 = Inr True"
  by (cases v) (auto simp: js_lt_def string_to_number_def trim_def)

text \<open>
  C10, as the two checks really compare. The handler of the single-file server
  tests \<^verbatim>\<open>!rating && !comment\<close> where the router tests
  \<^verbatim>\<open>rating === undefined && comment === undefined\<close>. Every body the router's check
  rejects is rejected by the other one with the same answer, and the two handlers
  behave alike on every body but those that carry no rating and a comment that is
  present and falsy (\<^verbatim>\<open>""\<close>, \<^verbatim>\<open>null\<close>, \<^verbatim>\<open>0\<close>, \<^verbatim>\<open>false\<close>): there the single-file
  server answers 400 from its check, and the router passes the body on to the store.
\<close>

theorem patch_handlers_differ:
  "app_patch_review e c sid srid r t =
     (if r = Undefined \<and> t \<noteq> Undefined \<and> \<not> truthy t
      then Inr ((400, Message ''INVALID RATING (must be 1-5) OR MISSING DATA.''), c)
      else patch_review e c sid srid r t)"
proof (cases "r = Undefined")
  case True
  then show ?thesis
    by (auto simp: app_patch_review_def patch_review_def app_patch_review_invalid_def
        patch_review_invalid_def)
next
  case False
  show ?thesis
  proof (cases "out_of_range r")
    case (Inl err)
    with False show ?thesis
      by (simp add: app_patch_review_def patch_review_def app_patch_review_invalid_def
          patch_review_invalid_def)
  next
    case (Inr b)
    show ?thesis
    proof (cases b)
      case True
      with False Inr show ?thesis
        by (simp add: app_patch_review_def patch_review_def app_patch_review_invalid_def
            patch_review_invalid_def)
    next
      case no: False
      have "truthy r"
      proof (rule ccontr)
        assume "\<not> truthy r"
        with False have "js_lt r 1 = Inr True" by (rule falsy_below_one)
        then have "out_of_range r = Inr True" by (simp add: out_of_range_def)
        with Inr no show False by simp
      qed
      with False Inr no show ?thesis
        by (simp add: app_patch_review_def patch_review_def app_patch_review_invalid_def
            patch_review_invalid_def)
    qed
  qed
qed

theorem patch_handlers_differ_witness:
  "app_patch_review request [inception] oid_1 oid_2 Undefined (Str '''') =
     Inr ((400, Message ''INVALID RATING (must be 1-5) OR MISSING DATA.''), [inception]) \<and>
   app_patch_review request [inception] oid_1 oid_2 (Num (Fin 3)) (Str '''') =
     patch_review request [inception] oid_1 oid_2 (Num (Fin 3)) (Str '''')"
  using patch_handlers_differ[of request "[inception]" oid_1 oid_2 Undefined "Str ''''"]
    patch_handlers_differ[of request "[inception]" oid_1 oid_2 "Num (Fin 3)" "Str ''''"]
  by simp

text \<open>
  The two handlers are not equivalent: to the body \<^verbatim>\<open>{ "comment": false }\<close> for the
  Review of "Inception" the router answers 200, having stored the comment
  \<^verbatim>\<open>"false"\<close>, and the single-file server answers 400.
\<close>

theorem patch_handlers_counterexample:
  "patch_review request [inception] oid_1 oid_2 Undefined (Bool False) =
     Inr ((200, Doc \<lparr>movie_id = 1, title = ''Inception'',
                       reviews = [\<lparr>review_id = 2, rating = Some (Fin 5),
                                   comment = Some ''false''\<rparr>],
                       createdAt = 1, updatedAt = 7\<rparr>),
          [\<lparr>movie_id = 1, title = ''Inception'',
            reviews = [\<lparr>review_id = 2, rating = Some (Fin 5), comment = Some ''false''\<rparr>],
            createdAt = 1, updatedAt = 7\<rparr>]) \<and>
   app_patch_review request [inception] oid_1 oid_2 Undefined (Bool False) =
     Inr ((400, Message ''INVALID RATING (must be 1-5) OR MISSING DATA.''), [inception])"
  by code_simp

section \<open>Adding a Review: \<^verbatim>\<open>POST /movies/{id}/reviews\<close>\<close>

text \<open>
  What the check of the handler does: a body with the rating absent, the comment
  absent, or a rating that is a number below 1 or above 5 makes it true, and whenever
  it is true the answer is 400, whatever the identifier, the collection and the
  state of the database are, and the collection is left as it is. A body that is
  answered 200 carries both fields and a rating that compares neither below 1 nor
  above 5.
\<close>

lemma post_review_rejects:
  "(post_review_invalid r t = Inr True \<longrightarrow>
      post_review e c sid r t = Inr ((400, Message ''INVALID COMMENT AND/OR RATING!''), c)) \<and>
   (r = Undefined \<or> t = Undefined \<longrightarrow> post_review_invalid r t = Inr True) \<and>
   (r = Num n \<and> (num_less n (Fin 1) \<or> num_less (Fin 5) n) \<longrightarrow>
      post_review_invalid r t = Inr True) \<and>
   (post_review e c sid r t = Inr ((200, b), c') \<longrightarrow> post_review_invalid r t = Inr False)"
proof -
  have a: "post_review_invalid r t = Inr True \<longrightarrow>
      post_review e c sid r t = Inr ((400, Message ''INVALID COMMENT AND/OR RATING!''), c)"
    by (simp add: post_review_def)
  have b: "r = Undefined \<or> t = Undefined \<longrightarrow> post_review_invalid r t = Inr True"
    by (simp add: post_review_invalid_def)
  have c: "r = Num n \<and> (num_less n (Fin 1) \<or> num_less (Fin 5) n) \<longrightarrow>
      post_review_invalid r t = Inr True"
    by (auto simp: post_review_invalid_def out_of_range_def js_lt_def js_gt_def)
  have d: "post_review e c sid r t = Inr ((200, b), c') \<longrightarrow> post_review_invalid r t = Inr False"
    by (cases "post_review_invalid r t") (auto simp: post_review_def)
  from a b c d show ?thesis by blast
qed

text \<open>
  C4 at the body \<^verbatim>\<open>{ "rating": 3, "comment": "" }\<close>: the check tests only
  \<^verbatim>\<open>comment === undefined\<close> and the \<^verbatim>\<open>$push\<close> is issued without
  \<^verbatim>\<open>runValidators\<close>, so the answer is 200 and the Review is appended with the empty
  comment, which the schema (\<^verbatim>\<open>comment: { required: true }\<close>) does not admit.
\<close>

theorem post_review_persists_empty_comment:
  "post_review request [inception] oid_1 (Num (Fin 3)) (Str '''') =
     Inr ((200, Doc \<lparr>movie_id = 1, title = ''Inception'',
                       reviews = [great,
                                  \<lparr>review_id = 9, rating = Some (Fin 3), comment = Some ''''\<rparr>],
                       createdAt = 1, updatedAt = 7\<rparr>),
          [\<lparr>movie_id = 1, title = ''Inception'',
            reviews = [great, \<lparr>review_id = 9, rating = Some (Fin 3), comment = Some ''''\<rparr>],
            createdAt = 1, updatedAt = 7\<rparr>])"
  by code_simp

text \<open>
  The update-review handler, which passes \<^verbatim>\<open>runValidators: true\<close>, refuses the same
  comment: the validator of the schema answers, and nothing is stored.
\<close>

lemma patch_review_refuses_empty_comment:
  "patch_review request [inception] oid_1 oid_2 Undefined (Str '''') =
     Inr ((400, Failure ValidationError), [inception])"
  by code_simp

text \<open>
  What the checks do keep: a rating given as a number is accepted only between 1 and
  5, by the add-review and by the update-review handler.
\<close>

lemma post_review_numeric_rating_in_range:
  "post_review e c sid (Num n) t = Inr ((200, b), c') \<Longrightarrow>
     \<not> num_less n (Fin 1) \<and> \<not> num_less (Fin 5) n"
  by (auto simp: post_review_def post_review_invalid_def out_of_range_def js_lt_def js_gt_def
      split: if_splits)

lemma patch_review_numeric_rating_in_range:
  "patch_review e c sid srid (Num n) t = Inr ((200, b), c') \<Longrightarrow>
     \<not> num_less n (Fin 1) \<and> \<not> num_less (Fin 5) n"
  by (auto simp: patch_review_def patch_review_invalid_def out_of_range_def js_lt_def js_gt_def
      split: if_splits)

text \<open>
  C7 at the body \<^verbatim>\<open>{ "rating": 2.5, "comment": "ok" }\<close>: the check compares the
  rating with 1 and 5 only, the schema type is \<^verbatim>\<open>Number\<close>, and the Review is stored
  with the rating 2.5, which is no integer.
\<close>

theorem post_review_persists_fractional_rating:
  "post_review request [inception] oid_1 (Num (Fin (5 / 2))) (Str ''ok'') =
     Inr ((200, Doc \<lparr>movie_id = 1, title = ''Inception'',
                       reviews = [great, \<lparr>review_id = 9, rating = Some (Fin (5 / 2)),
                                           comment = Some ''ok''\<rparr>],
                       createdAt = 1, updatedAt = 7\<rparr>),
          [\<lparr>movie_id = 1, title = ''Inception'',
            reviews = [great,
                       \<lparr>review_id = 9, rating = Some (Fin (5 / 2)), comment = Some ''ok''\<rparr>],
            createdAt = 1, updatedAt = 7\<rparr>])"
  by code_simp

section \<open>Creating, listing and deleting Movies\<close>

lemma post_movie_fresh:
  assumes "s \<noteq> []" and "s \<notin> set (map title c)" and "reachable e"
    and "new_id e \<notin> set (map movie_id c)"
  shows "post_movie e c (Str s) = ((201, Doc (new_movie e s)), c @ [new_movie e s])"
  using assms by (auto simp: post_movie_def save_def castString_def valid_text_def Let_def)

lemma post_movie_duplicate:
  assumes "s \<in> set (map title c)"
  shows "fst (fst (post_movie e c (Str s))) = 400 \<and> snd (post_movie e c (Str s)) = c"
  using assms by (auto simp: post_movie_def save_def castString_def valid_text_def Let_def)

lemma one_title:
  assumes "s \<in> set (map title c)" and "distinct (map title c)"
  shows "length (filter (\<lambda>m. title m = s) c) = 1"
  using assms
proof (induction c)
  case Nil
  then show ?case by simp
next
  case (Cons a c)
  show ?case
  proof (cases "title a = s")
    case True
    with Cons.prems have "s \<notin> set (map title c)" by auto
    then have "filter (\<lambda>m. title m = s) c = []" by (auto simp: filter_empty_conv)
    with True show ?thesis by simp
  next
    case False
    with Cons show ?thesis by auto
  qed
qed

text \<open>
  The create-movie operation keeps the identifiers and the titles of the collection
  distinct: this is what the unique indexes of the store give.
\<close>

lemma post_movie_keeps_indexes:
  assumes "distinct (map movie_id c)" and "distinct (map title c)"
  shows "distinct (map movie_id (snd (post_movie e c t))) \<and>
         distinct (map title (snd (post_movie e c t)))"
proof (cases "save e c t")
  case (Inl err)
  with assms show ?thesis by (simp add: post_movie_def)
next
  case (Inr mc)
  then obtain s where s: "castString t = Inr (Some s)"
    and fresh: "new_id e \<notin> set (map movie_id c)" "s \<notin> set (map title c)"
    and mc: "mc = (new_movie e s, c @ [new_movie e s])"
    by (auto simp: save_def valid_text_def Let_def image_iff
        split: sum.splits option.splits if_splits)
  show ?thesis
  proof (cases "truthy t")
    case True
    with Inr mc assms fresh show ?thesis
      by (simp add: post_movie_def new_movie_def)
  next
    case False
    with assms show ?thesis by (simp add: post_movie_def)
  qed
qed

text \<open>
  C5. A body whose title is absent, \<^verbatim>\<open>null\<close> or empty (any falsy title) is answered
  400 by the check of the handler, whatever the collection and the state of the
  database are, and the collection is left as it is: no query is issued. A title
  that a stored Movie already has is answered 400, not 500, and the collection is
  left as it is, so that a collection of distinct titles still holds exactly one
  Movie of that title. For distinct non-empty titles \<open>t1\<close> and \<open>t2\<close> that no stored
  Movie has, creating \<open>t1\<close> and then \<open>t2\<close> is answered 201 both times, with the new
  Movie (no reviews) appended each time; the database is reachable and the
  identifiers generated are new.
\<close>

theorem post_movie_titles:
  "(\<not> truthy t \<longrightarrow> post_movie e c t = ((400, Message ''TITLE REQUIRED!''), c)) \<and>
   (t = Undefined \<or> t = Null \<or> t = Str [] \<longrightarrow> \<not> truthy t) \<and>
   (s \<in> set (map title c) \<longrightarrow>
      fst (fst (post_movie e c (Str s))) = 400 \<and> snd (post_movie e c (Str s)) = c) \<and>
   (s \<in> set (map title c) \<and> distinct (map title c) \<longrightarrow>
      length (filter (\<lambda>m. title m = s) (snd (post_movie e c (Str s)))) = 1) \<and>
   (t1 \<noteq> t2 \<and> t1 \<noteq> [] \<and> t2 \<noteq> [] \<and> t1 \<notin> set (map title c) \<and> t2 \<notin> set (map title c) \<and>
    reachable e1 \<and> reachable e2 \<and> new_id e1 \<notin> set (map movie_id c) \<and>
    new_id e2 \<notin> set (map movie_id c) \<and> new_id e1 \<noteq> new_id e2 \<longrightarrow>
      post_movie e1 c (Str t1) = ((201, Doc (new_movie e1 t1)), c @ [new_movie e1 t1]) \<and>
      post_movie e2 (c @ [new_movie e1 t1]) (Str t2) =
        ((201, Doc (new_movie e2 t2)), c @ [new_movie e1 t1, new_movie e2 t2]))"
proof -
  have a: "\<not> truthy t \<longrightarrow> post_movie e c t = ((400, Message ''TITLE REQUIRED!''), c)"
    by (simp add: post_movie_def)
  have b: "t = Undefined \<or> t = Null \<or> t = Str [] \<longrightarrow> \<not> truthy t" by auto
  have c: "s \<in> set (map title c) \<longrightarrow>
      fst (fst (post_movie e c (Str s))) = 400 \<and> snd (post_movie e c (Str s)) = c"
    using post_movie_duplicate by blast
  have d: "s \<in> set (map title c) \<and> distinct (map title c) \<longrightarrow>
      length (filter (\<lambda>m. title m = s) (snd (post_movie e c (Str s)))) = 1"
    using post_movie_duplicate[of s c e] one_title[of s c] by simp
  have e: "t1 \<noteq> t2 \<and> t1 \<noteq> [] \<and> t2 \<noteq> [] \<and> t1 \<notin> set (map title c) \<and> t2 \<notin> set (map title c) \<and>
    reachable e1 \<and> reachable e2 \<and> new_id e1 \<notin> set (map movie_id c) \<and>
    new_id e2 \<notin> set (map movie_id c) \<and> new_id e1 \<noteq> new_id e2 \<longrightarrow>
      post_movie e1 c (Str t1) = ((201, Doc (new_movie e1 t1)), c @ [new_movie e1 t1]) \<and>
      post_movie e2 (c @ [new_movie e1 t1]) (Str t2) =
        ((201, Doc (new_movie e2 t2)), c @ [new_movie e1 t1, new_movie e2 t2])"
  proof (intro impI, elim conjE)
    assume h: "t1 \<noteq> t2" "t1 \<noteq> []" "t2 \<noteq> []" "t1 \<notin> set (map title c)" "t2 \<notin> set (map title c)"
      "reachable e1" "reachable e2" "new_id e1 \<notin> set (map movie_id c)"
      "new_id e2 \<notin> set (map movie_id c)" "new_id e1 \<noteq> new_id e2"
    have first: "post_movie e1 c (Str t1) = ((201, Doc (new_movie e1 t1)), c @ [new_movie e1 t1])"
      using h by (intro post_movie_fresh)
    have "t2 \<notin> set (map title (c @ [new_movie e1 t1]))"
      using h by (simp add: new_movie_def)
    moreover have "new_id e2 \<notin> set (map movie_id (c @ [new_movie e1 t1]))"
      using h by (simp add: new_movie_def)
    ultimately have "post_movie e2 (c @ [new_movie e1 t1]) (Str t2) =
        ((201, Doc (new_movie e2 t2)), (c @ [new_movie e1 t1]) @ [new_movie e2 t2])"
      using h by (intro post_movie_fresh)
    with first
    show "post_movie e1 c (Str t1) = ((201, Doc (new_movie e1 t1)), c @ [new_movie e1 t1]) \<and>
      post_movie e2 (c @ [new_movie e1 t1]) (Str t2) =
        ((201, Doc (new_movie e2 t2)), c @ [new_movie e1 t1, new_movie e2 t2])"
      by simp
  qed
  from a b c d e show ?thesis by blast
qed

theorem post_movie_titles_witness:
  "post_movie request [] Undefined = ((400, Message ''TITLE REQUIRED!''), []) \<and>
   post_movie request [] (Str ''Inception'') =
     ((201, Doc (new_movie request ''Inception'')), [new_movie request ''Inception'']) \<and>
   post_movie later_request [new_movie request ''Inception''] (Str ''Alien'') =
     ((201, Doc (new_movie later_request ''Alien'')),
      [new_movie request ''Inception'', new_movie later_request ''Alien'']) \<and>
   fst (fst (post_movie later_request
      [new_movie request ''Inception'', new_movie later_request ''Alien''] (Str ''Inception''))) = 400 \<and>
   length (filter (\<lambda>m. title m = ''Inception'') (snd (post_movie later_request
      [new_movie request ''Inception'', new_movie later_request ''Alien''] (Str ''Inception'')))) = 1"
proof -
  let ?c = "[new_movie request ''Inception'', new_movie later_request ''Alien'']"
  have fresh: "''Inception'' \<noteq> ''Alien'' \<and> ''Inception'' \<noteq> [] \<and> ''Alien'' \<noteq> [] \<and>
    ''Inception'' \<notin> set (map title []) \<and> ''Alien'' \<notin> set (map title []) \<and>
    reachable request \<and> reachable later_request \<and> new_id request \<notin> set (map movie_id []) \<and>
    new_id later_request \<notin> set (map movie_id []) \<and> new_id request \<noteq> new_id later_request"
    by (simp add: request_def later_request_def)
  have dup: "''Inception'' \<in> set (map title ?c) \<and> distinct (map title ?c)"
    by (simp add: new_movie_def)
  from post_movie_titles[of Undefined request "[]"]
  have one: "post_movie request [] Undefined = ((400, Message ''TITLE REQUIRED!''), [])"
    by simp
  from post_movie_titles[of _ _ "[]" _ "''Inception''" "''Alien''" request later_request] fresh
  have two: "post_movie request [] (Str ''Inception'') =
     ((201, Doc (new_movie request ''Inception'')), [new_movie request ''Inception'']) \<and>
   post_movie later_request [new_movie request ''Inception''] (Str ''Alien'') =
     ((201, Doc (new_movie later_request ''Alien'')), ?c)"
    by simp
  from post_movie_titles[of _ later_request ?c "''Inception''"] dup
  have three: "fst (fst (post_movie later_request ?c (Str ''Inception''))) = 400 \<and>
    length (filter (\<lambda>m. title m = ''Inception'')
      (snd (post_movie later_request ?c (Str ''Inception'')))) = 1"
    by blast
  from one two three show ?thesis by simp
qed

lemma sort_key_determined:
  fixes f :: "'a \<Rightarrow> 'k::linorder"
  assumes "mset xs = mset ys" and "distinct (map f xs)"
  shows "sort_key f xs = sort_key f ys"
proof -
  have inj: "inj_on f (set xs)" using assms(2) by (simp add: distinct_map)
  have sets: "set ys = set xs" using assms(1) by (metis set_mset_mset)
  have "mset (map f (sort_key f ys)) = mset (map f xs)"
    using assms(1) by (metis mset_map mset_sort)
  moreover have "sorted (map f (sort_key f ys))" by (rule sorted_sort_key)
  ultimately have a: "sort (map f xs) = map f (sort_key f ys)" by (rule properties_for_sort)
  have "mset (map f (sort_key f xs)) = mset (map f xs)" by (metis mset_map mset_sort)
  moreover have "sorted (map f (sort_key f xs))" by (rule sorted_sort_key)
  ultimately have b: "sort (map f xs) = map f (sort_key f xs)" by (rule properties_for_sort)
  from a b have "map f (sort_key f xs) = map f (sort_key f ys)" by simp
  moreover have "inj_on f (set (sort_key f xs) \<union> set (sort_key f ys))"
    using inj sets by simp
  ultimately show ?thesis by (simp add: inj_on_map_eq_map)
qed

text \<open>
  C8. With the database reachable, the list-movies operation answers 200 with a list
  that holds exactly the stored Movies (each as often as it is stored) and whose
  titles are in non-decreasing lexicographic order, and leaves the collection as it
  is. The order of creation does not show: two collections that hold the same Movies
  with distinct titles, in whatever order, get the same answer.
\<close>

theorem get_movies_sorted:
  "(reachable e \<longrightarrow>
      (\<exists>ms. get_movies e c = ((200, Movies ms), c) \<and> sorted (map title ms) \<and>
            mset ms = mset c)) \<and>
   (reachable e \<and> mset c = mset c' \<and> distinct (map title c) \<longrightarrow>
      fst (get_movies e c') = fst (get_movies e c))"
proof -
  have a: "reachable e \<longrightarrow>
      (\<exists>ms. get_movies e c = ((200, Movies ms), c) \<and> sorted (map title ms) \<and>
            mset ms = mset c)"
    by (simp add: get_movies_def find_sorted_def sorted_sort_key)
  have b: "reachable e \<and> mset c = mset c' \<and> distinct (map title c) \<longrightarrow>
      fst (get_movies e c') = fst (get_movies e c)"
    using sort_key_determined[of c c' title] by (simp add: get_movies_def find_sorted_def)
  from a b show ?thesis by blast
qed

theorem get_movies_sorted_witness:
  "reachable request \<and> mset [inception, alien] = mset [alien, inception] \<and>
   distinct (map title [inception, alien]) \<and>
   (\<exists>ms. get_movies request [inception, alien] = ((200, Movies ms), [inception, alien]) \<and>
         sorted (map title ms) \<and> mset ms = mset [inception, alien]) \<and>
   fst (get_movies request [alien, inception]) = fst (get_movies request [inception, alien]) \<and>
   fst (get_movies request [inception, alien]) = (200, Movies [alien, inception])"
proof -
  have perm: "mset [inception, alien] = mset [alien, inception]" by (simp add: add.commute)
  have dist: "distinct (map title [inception, alien])" by (simp add: inception_def alien_def)
  have run: "fst (get_movies request [inception, alien]) = (200, Movies [alien, inception])"
    by code_simp
  from get_movies_sorted[of request "[inception, alien]" "[alien, inception]"]
    request_reachable perm dist run
  show ?thesis by simp
qed

lemma find_removed:
  assumes "distinct (map movie_id c)" and "find (has_id i) c = Some m"
  shows "find (has_id i) (remove1 m c) = None"
proof -
  from assms(2) have m: "m \<in> set c" "movie_id m = i"
    by (auto simp: find_Some_iff has_id_def)
  have inj: "inj_on movie_id (set c)" and d: "distinct c"
    using assms(1) by (simp_all add: distinct_map)
  have "movie_id x \<noteq> i" if "x \<in> set (remove1 m c)" for x
  proof
    assume "movie_id x = i"
    moreover from that d have "x \<in> set c" "x \<noteq> m" by auto
    ultimately show False using m inj by (auto dest: inj_onD)
  qed
  then show ?thesis by (auto simp: find_None_iff has_id_def)
qed

text \<open>
  C9. For every stored Movie \<open>m\<close>, found under its identifier in a collection whose
  identifiers are distinct (the unique index on \<^verbatim>\<open>_id\<close>) while the database is
  reachable, the delete-movie operation answers 200 with \<open>m\<close> as it was stored, its
  reviews included, and removes it. Afterwards no stored Movie has the identifier:
  reading the Movie and reading its reviews by the same identifier are both answered
  404.
\<close>

theorem delete_movie_then_get:
  "reachable e \<and> reachable e' \<and> distinct (map movie_id c) \<and>
   castObjectId sid = Some i \<and> find (has_id i) c = Some m \<longrightarrow>
     delete_movie e c sid = ((200, Doc m), remove1 m c) \<and>
     get_movie e' (remove1 m c) sid = ((404, Message ''MOVIE NOT FOUND!''), remove1 m c) \<and>
     get_reviews e' (remove1 m c) sid = ((404, Message ''MOVIE NOT FOUND!''), remove1 m c) \<and>
     find (has_id i) (remove1 m c) = None"
proof (intro impI, elim conjE)
  assume h: "reachable e" "reachable e'" "distinct (map movie_id c)"
    "castObjectId sid = Some i" "find (has_id i) c = Some m"
  have gone: "find (has_id i) (remove1 m c) = None" using h(3,5) by (rule find_removed)
  have "delete_movie e c sid = ((200, Doc m), remove1 m c)"
    using h by (simp add: delete_movie_def findByIdAndDelete_def)
  moreover
  have "get_movie e' (remove1 m c) sid = ((404, Message ''MOVIE NOT FOUND!''), remove1 m c)"
    using h gone by (simp add: get_movie_def findById_def)
  moreover
  have "get_reviews e' (remove1 m c) sid = ((404, Message ''MOVIE NOT FOUND!''), remove1 m c)"
    using h gone by (simp add: get_reviews_def findById_def)
  ultimately show "delete_movie e c sid = ((200, Doc m), remove1 m c) \<and>
     get_movie e' (remove1 m c) sid = ((404, Message ''MOVIE NOT FOUND!''), remove1 m c) \<and>
     get_reviews e' (remove1 m c) sid = ((404, Message ''MOVIE NOT FOUND!''), remove1 m c) \<and>
     find (has_id i) (remove1 m c) = None"
    using gone by simp
qed

theorem delete_movie_then_get_witness:
  "reachable request \<and> reachable later_request \<and> distinct (map movie_id [alien, inception]) \<and>
   castObjectId oid_1 = Some 1 \<and> find (has_id 1) [alien, inception] = Some inception \<and>
   delete_movie request [alien, inception] oid_1 = ((200, Doc inception), [alien]) \<and>
   reviews inception = [great] \<and>
   get_movie later_request [alien] oid_1 = ((404, Message ''MOVIE NOT FOUND!''), [alien]) \<and>
   get_reviews later_request [alien] oid_1 = ((404, Message ''MOVIE NOT FOUND!''), [alien])"
proof -
  have later: "reachable later_request" by (simp add: later_request_def)
  have dist: "distinct (map movie_id [alien, inception])"
    by (simp add: inception_def alien_def)
  have found: "find (has_id 1) [alien, inception] = Some inception"
    by (simp add: has_id_def inception_def alien_def)
  have rest: "remove1 inception [alien, inception] = [alien]"
    by (simp add: inception_def alien_def)
  have revs: "reviews inception = [great]" by (simp add: inception_def)
  from delete_movie_then_get[of request later_request "[alien, inception]" oid_1 1 inception]
    request_reachable later dist cast_oid_1 found rest revs
  show ?thesis by simp
qed

end
